theory Spec2Isabelle
  imports Main
begin

section \<open>Python exceptions and the string formatting operator\<close>

text \<open>
  A raised exception is a value: every function that can raise returns \<open>error + 'a\<close>,
  with \<open>Inl\<close> carrying the exception class and its message.
\<close>

datatype error =
    ValueError string
  | TypeError string
  | RuntimeError string
  | KeyError string
  | IndexError string
  | AttributeError string
  | FileNotFoundError string
  | YAMLError string

text \<open>
  \<open>py_format fmt args\<close> is Python's \<open>fmt % args\<close> for string arguments. A right operand
  that is a single string is the one-element list. The only conversion the sources use is
  \<open>%s\<close>; \<open>%%\<close> is the literal percent sign. Too few arguments and left-over arguments
  raise \<open>TypeError\<close>, as in Python.
\<close>

fun py_format :: "string \<Rightarrow> string list \<Rightarrow> error + string" where
  "py_format [] args =
     (if args = [] then Inr []
      else Inl (TypeError ''not all arguments converted during string formatting''))"
| "py_format [c] args =
     (if c = CHR ''%'' then Inl (ValueError ''incomplete format'')
      else map_sum id ((#) c) (py_format [] args))"
| "py_format (c # d # cs) args =
     (if c \<noteq> CHR ''%'' then map_sum id ((#) c) (py_format (d # cs) args)
      else if d = CHR ''s'' then
        (case args of
           [] \<Rightarrow> Inl (TypeError ''not enough arguments for format string'')
         | a # as \<Rightarrow> map_sum id ((@) a) (py_format cs as))
      else if d = CHR ''%'' then map_sum id ((#) CHR ''%'') (py_format cs args)
      else Inl (ValueError ''unsupported format character''))"

section \<open>The runner base class (tfx/orchestration/tfx\_runner.py)\<close>

text \<open>
  A component, as far as the runner reads it: the attributes \<open>id\<close>, \<open>component_id\<close> and
  \<open>executor_spec\<close>. The runner object holds the class attribute
  \<open>SUPPORTED_LAUNCHER_CLASSES\<close> (\<open>None\<close> when it is Python's \<open>None\<close>) and the
  platform-config dictionary, kept as the list of its items in insertion order.

  Launcher classes and platform configs belong to modules that are outside this
  development, so the three operations the runner applies to them are parameters:
  \<open>issubclass_launcher cls\<close> for \<open>issubclass(cls, BaseComponentLauncher)\<close>,
  \<open>type_of cfg\<close> for \<open>type(cfg)\<close> and \<open>can_launch cls spec cfg\<close> for
  \<open>cls.can_launch(spec, platform_config=cfg)\<close>.
\<close>

record 'e component =
  id_c :: string
  component_id :: string
  executor_spec :: 'e

record ('l, 'p) TfxRunner =
  supported_launcher_classes :: "'l list option"
  platform_configs :: "(string \<times> 'p list) list"

definition validate_supported_launcher_classes ::
  "('l \<Rightarrow> bool) \<Rightarrow> ('l, 'p) TfxRunner \<Rightarrow> error + unit" where
  "validate_supported_launcher_classes issubclass_launcher self =
     (case supported_launcher_classes self of
        None \<Rightarrow> Inl (ValueError ''component_launcher_classes must not be None or empty.'')
      | Some classes \<Rightarrow>
          if classes = [] then
            Inl (ValueError ''component_launcher_classes must not be None or empty.'')
          else if list_ex (\<lambda>b. b) (map (\<lambda>cls. \<not> issubclass_launcher cls) classes) then
            Inl (TypeError (''Each item in supported_launcher_classes must be type of '' @
                            ''base_component_launcher.BaseComponentLauncher.''))
          else Inr ())"

fun validate_platform_configs_items ::
  "('p \<Rightarrow> 't) \<Rightarrow> (string \<times> 'p list) list \<Rightarrow> error + unit" where
  "validate_platform_configs_items type_of [] = Inr ()"
| "validate_platform_configs_items type_of ((cid, configs) # rest) =
     (if cid = [] then
        Inl (ValueError ''component id cannot be empty in platform_configs.'')
      else
        let platform_config_types = set (map type_of configs) in
        if card platform_config_types < length configs then
          (case py_format
                  ''Component \"%s\" has multiple platfrom configs with the same type.''
                  [cid] of
             Inl e \<Rightarrow> Inl e
           | Inr msg \<Rightarrow> Inl (ValueError msg))
        else validate_platform_configs_items type_of rest)"

definition validate_platform_configs ::
  "('p \<Rightarrow> 't) \<Rightarrow> ('l, 'p) TfxRunner \<Rightarrow> error + unit" where
  "validate_platform_configs type_of self =
     validate_platform_configs_items type_of (platform_configs self)"

text \<open>
  The constructor. Its argument is \<open>None\<close> or a dictionary; \<open>platform_configs or {}\<close>
  turns \<open>None\<close> into the empty dictionary (and leaves the empty dictionary empty).
\<close>

definition TfxRunner_init ::
  "('l \<Rightarrow> bool) \<Rightarrow> ('p \<Rightarrow> 't) \<Rightarrow> 'l list option \<Rightarrow> (string \<times> 'p list) list option
     \<Rightarrow> error + ('l, 'p) TfxRunner" where
  "TfxRunner_init issubclass_launcher type_of SUPPORTED_LAUNCHER_CLASSES platform_configs_arg =
     (let self = \<lparr>supported_launcher_classes = SUPPORTED_LAUNCHER_CLASSES,
                  platform_configs = (case platform_configs_arg of None \<Rightarrow> [] | Some d \<Rightarrow> d)\<rparr>
      in case validate_supported_launcher_classes issubclass_launcher self of
           Inl e \<Rightarrow> Inl e
         | Inr _ \<Rightarrow>
             (case validate_platform_configs type_of self of
                Inl e \<Rightarrow> Inl e
              | Inr _ \<Rightarrow> Inr self))"

text \<open>
  \<open>find_component_launch_info\<close>: the candidate list is \<open>[None]\<close>, with the configs
  registered under the component's \<open>id\<close> put in front of it when there are any. The two
  nested \<open>for\<close> loops are two recursive functions; the \<open>return\<close> in the inner loop leaves
  both.
\<close>

definition candidate_platform_configs ::
  "('l, 'p) TfxRunner \<Rightarrow> 'e component \<Rightarrow> 'p option list" where
  "candidate_platform_configs self component =
     (let platform_configs0 = [None] in
      case map_of (platform_configs self) (id_c component) of
        Some registered \<Rightarrow> map Some registered @ platform_configs0
      | None \<Rightarrow> platform_configs0)"

fun launcher_loop ::
  "('l \<Rightarrow> 'e \<Rightarrow> 'p option \<Rightarrow> bool) \<Rightarrow> 'e \<Rightarrow> 'p option \<Rightarrow> 'l list \<Rightarrow> 'l option" where
  "launcher_loop can_launch spec platform_config [] = None"
| "launcher_loop can_launch spec platform_config (component_launcher_class # rest) =
     (if can_launch component_launcher_class spec platform_config
      then Some component_launcher_class
      else launcher_loop can_launch spec platform_config rest)"

fun platform_config_loop ::
  "('l \<Rightarrow> 'e \<Rightarrow> 'p option \<Rightarrow> bool) \<Rightarrow> 'e \<Rightarrow> 'l list \<Rightarrow> 'p option list
     \<Rightarrow> ('l \<times> 'p option) option" where
  "platform_config_loop can_launch spec classes [] = None"
| "platform_config_loop can_launch spec classes (platform_config # rest) =
     (case launcher_loop can_launch spec platform_config classes of
        Some component_launcher_class \<Rightarrow> Some (component_launcher_class, platform_config)
      | None \<Rightarrow> platform_config_loop can_launch spec classes rest)"

definition find_component_launch_info ::
  "('l \<Rightarrow> 'e \<Rightarrow> 'p option \<Rightarrow> bool) \<Rightarrow> ('l, 'p) TfxRunner \<Rightarrow> 'e component
     \<Rightarrow> error + ('l \<times> 'p option)" where
  "find_component_launch_info can_launch self component =
     (let candidates = candidate_platform_configs self component in
      case supported_launcher_classes self of
        None \<Rightarrow> Inl (TypeError ''NoneType object is not iterable'')
      | Some classes \<Rightarrow>
          (case platform_config_loop can_launch (executor_spec component) classes
                  candidates of
             Some found \<Rightarrow> Inr found
           | None \<Rightarrow>
               (case py_format ''No launcher can launch component \"%s\".''
                       [component_id component] of
                  Inl e \<Rightarrow> Inl e
                | Inr msg \<Rightarrow> Inl (RuntimeError msg))))"

section \<open>The build-spec helper (tfx/tools/cli/container\_builder/buildspec.py)\<close>

subsection \<open>Python values read from YAML\<close>

text \<open>
  What \<open>yaml.safe_load\<close> returns and \<open>yaml.dump\<close> takes: \<open>None\<close>, booleans, integers,
  strings, lists and dictionaries with string keys. A dictionary is the list of its items
  (its keys are distinct; a lookup reads the first binding of a key). Subscripting and
  \<open>len\<close> raise what Python raises on a value of the wrong kind.
\<close>

datatype yaml =
    YNone
  | YBool bool
  | YInt int
  | YStr string
  | YList "yaml list"
  | YDict "(string \<times> yaml) list"

fun py_getitem_str :: "yaml \<Rightarrow> string \<Rightarrow> error + yaml" where
  "py_getitem_str (YDict items) key =
     (case map_of items key of None \<Rightarrow> Inl (KeyError key) | Some v \<Rightarrow> Inr v)"
| "py_getitem_str (YList xs) key =
     Inl (TypeError ''list indices must be integers or slices, not str'')"
| "py_getitem_str (YStr s) key = Inl (TypeError ''string indices must be integers'')"
| "py_getitem_str v key = Inl (TypeError ''object is not subscriptable'')"

fun py_getitem_int :: "yaml \<Rightarrow> nat \<Rightarrow> error + yaml" where
  "py_getitem_int (YList xs) i =
     (if i < length xs then Inr (xs ! i) else Inl (IndexError ''list index out of range''))"
| "py_getitem_int (YStr s) i =
     (if i < length s then Inr (YStr [s ! i]) else Inl (IndexError ''string index out of range''))"
| "py_getitem_int (YDict items) i = Inl (KeyError ''integer key'')"
| "py_getitem_int v i = Inl (TypeError ''object is not subscriptable'')"

fun py_len :: "yaml \<Rightarrow> error + nat" where
  "py_len (YList xs) = Inr (length xs)"
| "py_len (YStr s) = Inr (length s)"
| "py_len (YDict items) = Inr (length (remdups (map fst items)))"
| "py_len v = Inl (TypeError ''object has no len()'')"

definition bind_error :: "error + 'a \<Rightarrow> ('a \<Rightarrow> error + 'b) \<Rightarrow> error + 'b" where
  "bind_error r f = (case r of Inl e \<Rightarrow> Inl e | Inr v \<Rightarrow> f v)"

subsection \<open>The world outside: files and the console\<close>

text \<open>
  The file system is a map from paths to file contents (text); a path exists when it is
  in the domain. \<open>writable\<close> says of a path whether the operating system lets a file
  be opened for writing there (its directory exists and may be written to); the empty
  path never can be. Where it can, the file is created or replaced; where it cannot,
  \<open>open\<close> raises and nothing is created. \<open>click.echo\<close>
  appends a line to the console. Given a second positional argument, \<open>click.echo\<close> takes
  it as the file object to write to; a string has no \<open>write\<close> method.

  \<open>yaml.safe_load\<close> and \<open>yaml.dump\<close> are parameters \<open>safe_load\<close> and \<open>dump\<close>, and
  the constants of the \<open>commons\<close> module are the fields of a record.
\<close>

record world =
  files :: "string \<rightharpoonup> string"
  writable :: "string \<Rightarrow> bool"
  console :: "string list"

definition open_for_writing :: "string \<Rightarrow> world \<Rightarrow> error option" where
  "open_for_writing path w =
     (if path = [] \<or> \<not> writable w path then Some (FileNotFoundError path) else None)"

definition click_echo :: "string \<Rightarrow> world \<Rightarrow> world" where
  "click_echo message w = w\<lparr>console := console w @ [message]\<rparr>"

definition click_echo_to :: "string \<Rightarrow> string \<Rightarrow> world \<Rightarrow> error + world" where
  "click_echo_to message file w = Inl (AttributeError ''str object has no attribute write'')"

record commons =
  BUILD_SPEC_FILENAME :: string
  BUILD_CONTEXT :: string
  DOCKERFILE_NAME :: string
  SKAFFOLD_API_VERSION :: string

subsection \<open>The class\<close>

text \<open>
  \<open>buildspec\<close> is the attribute \<open>_buildspec\<close>, \<open>None\<close> until it is assigned.
  \<open>build_context\<close> is a Python value: the constructor stores a string, the load path
  stores whatever the file has under \<open>workspace\<close>.

  A method takes the object and the world and returns the exception it raised (\<open>None\<close>
  when it returned normally), the object as the method left it and the world as the
  method left it. The caller of the constructor gets the object only when no exception
  was raised.
\<close>

record BuildSpec =
  filename :: string
  build_context :: yaml
  target_image :: "string option"
  buildspec :: "yaml option"

definition read_existing_build_spec ::
  "(string \<Rightarrow> error + yaml) \<Rightarrow> BuildSpec \<Rightarrow> world \<Rightarrow> error option \<times> BuildSpec \<times> world" where
  "read_existing_build_spec safe_load self w =
     (case files w (filename self) of
        None \<Rightarrow> (Some (FileNotFoundError (filename self)), self, w)
      | Some text \<Rightarrow>
          (case py_format ''Reading build spec from %s'' [filename self] of
             Inl e \<Rightarrow> (Some e, self, w)
           | Inr line \<Rightarrow>
               let w1 = click_echo line w in
               (case (case target_image self of
                        None \<Rightarrow> Inr w1
                      | Some target \<Rightarrow>
                          bind_error
                            (py_format
                               (''Target image %s is not used. If the build spec is'' @
                                ''provicded, update the target image in the build spec'' @
                                ''file %s.'')
                               [target])
                            (\<lambda>message. click_echo_to message (filename self) w1)) of
                  Inl e \<Rightarrow> (Some e, self, w1)
                | Inr w2 \<Rightarrow>
                    (case safe_load text of
                       Inl e \<Rightarrow> (Some e, self, w2)
                     | Inr doc \<Rightarrow>
                         let self1 = self\<lparr>buildspec := Some doc\<rparr>;
                             artifacts =
                               bind_error (py_getitem_str doc ''build'')
                                 (\<lambda>build. py_getitem_str build ''artifacts'')
                         in
                         (case bind_error artifacts py_len of
                            Inl e \<Rightarrow> (Some e, self1, w2)
                          | Inr n \<Rightarrow>
                              if n \<noteq> 1 then
                                (Some (RuntimeError
                                         (''The build spec contains multiple artifacts however'' @
                                          ''only one is supported.'')), self1, w2)
                              else
                                (case bind_error
                                        (bind_error artifacts (\<lambda>a. py_getitem_int a 0))
                                        (\<lambda>artifact. py_getitem_str artifact ''workspace'') of
                                   Inl e \<Rightarrow> (Some e, self1, w2)
                                 | Inr workspace \<Rightarrow>
                                     (None, self1\<lparr>build_context := workspace\<rparr>, w2)))))))"

definition default_buildspec :: "commons \<Rightarrow> BuildSpec \<Rightarrow> string \<Rightarrow> yaml" where
  "default_buildspec cs self dockerfile_name =
     YDict [(''apiVersion'', YStr (SKAFFOLD_API_VERSION cs)),
            (''kind'', YStr ''Config''),
            (''build'', YDict
               [(''artifacts'', YList
                   [YDict [(''image'', (case target_image self of
                                          None \<Rightarrow> YNone | Some target \<Rightarrow> YStr target)),
                           (''workspace'', build_context self),
                           (''docker'', YDict [(''dockerfile'', YStr dockerfile_name)])]])])]"

definition generate_default ::
  "commons \<Rightarrow> (yaml \<Rightarrow> string) \<Rightarrow> BuildSpec \<Rightarrow> string \<Rightarrow> world
     \<Rightarrow> error option \<times> BuildSpec \<times> world" where
  "generate_default cs dump self dockerfile_name w =
     (let self1 = self\<lparr>buildspec := Some (default_buildspec cs self dockerfile_name)\<rparr> in
      case open_for_writing (filename self1) w of
        Some e \<Rightarrow> (Some e, self1, w)
      | None \<Rightarrow>
          (None, self1,
           w\<lparr>files := (files w)(filename self1 \<mapsto>
                          dump (default_buildspec cs self dockerfile_name))\<rparr>))"

text \<open>
  The constructor. An argument left out is \<open>None\<close> and takes its default from \<open>commons\<close>;
  for \<open>target_image\<close> the default is Python's \<open>None\<close> itself.
\<close>

definition BuildSpec_init ::
  "commons \<Rightarrow> (string \<Rightarrow> error + yaml) \<Rightarrow> (yaml \<Rightarrow> string)
     \<Rightarrow> string option \<Rightarrow> string option \<Rightarrow> string option \<Rightarrow> string option
     \<Rightarrow> world \<Rightarrow> error option \<times> BuildSpec \<times> world" where
  "BuildSpec_init cs safe_load dump filename_arg target_image_arg build_context_arg
       dockerfile_name_arg w =
     (let dockerfile_name =
            (case dockerfile_name_arg of None \<Rightarrow> DOCKERFILE_NAME cs | Some d \<Rightarrow> d);
          self =
            \<lparr>filename =
               (case filename_arg of None \<Rightarrow> BUILD_SPEC_FILENAME cs | Some f \<Rightarrow> f),
             build_context =
               YStr (case build_context_arg of None \<Rightarrow> BUILD_CONTEXT cs | Some c \<Rightarrow> c),
             target_image = target_image_arg,
             buildspec = None\<rparr>
      in if files w (filename self) \<noteq> None then read_existing_build_spec safe_load self w
         else if target_image_arg = None then
           (Some (ValueError (''BuildSpec: target_image is not given and there is no '' @
                              ''existing build spec file.'')), self, w)
         else generate_default cs dump self dockerfile_name w)"

section \<open>The example component (hello\_component/component.py)\<close>

text \<open>
  The constructor's three arguments go into a \<open>HelloComponentSpec\<close>, which goes to the
  base class constructor. The channel and artifact classes, \<open>channel_utils.as_channel\<close>,
  the spec's validation and the base class constructor are outside these sources: the
  functions \<open>as_channel\<close>, \<open>Examples\<close> (for \<open>standard_artifacts.Examples(split=...)\<close>),
  \<open>spec_init\<close> and \<open>base_init\<close> are parameters.
\<close>

record 'ch HelloComponentSpec_args =
  input_data :: "'ch option"
  output_data :: 'ch
  name :: "string option"

definition channel_truthy :: "'ch \<Rightarrow> bool" where
  \<comment> \<open>Modelled from the spec: the class \<open>Channel\<close> (tfx/types/channel.py) is not among
      the sources; the spec has a channel as a typed handle that carries no data, an
      object with neither a length nor a truth value of its own, so Python takes every
      channel as true.\<close>
  "channel_truthy ch = True"

definition HelloComponent_init ::
  "('a list \<Rightarrow> 'ch) \<Rightarrow> (string \<Rightarrow> 'a) \<Rightarrow> ('ch HelloComponentSpec_args \<Rightarrow> error + 's)
     \<Rightarrow> ('s \<Rightarrow> error + 'c) \<Rightarrow> 'ch option \<Rightarrow> 'ch option \<Rightarrow> string option \<Rightarrow> error + 'c" where
  "HelloComponent_init as_channel Examples spec_init base_init input_data_arg output_data_arg
       name_arg =
     (let minted = as_channel (map (\<lambda>split_name. Examples split_name) [''train'', ''eval'']);
          output = (case output_data_arg of
                      None \<Rightarrow> minted
                    | Some ch \<Rightarrow> if channel_truthy ch then ch else minted)
      in bind_error
           (spec_init \<lparr>input_data = input_data_arg, output_data = output, name = name_arg\<rparr>)
           (\<lambda>spec. base_init spec))"

section \<open>Properties of the runner\<close>

lemma no_launcher_message:
  "py_format ''No launcher can launch component \"%s\".'' [x] =
     Inr (''No launcher can launch component \"'' @ x @ ''\".'')"
  by simp

lemma multiple_configs_message:
  "py_format ''Component \"%s\" has multiple platfrom configs with the same type.'' [x] =
     Inr (''Component \"'' @ x @ ''\" has multiple platfrom configs with the same type.'')"
  by simp

lemma launcher_loop_None_iff:
  "launcher_loop can_launch spec pc classes = None \<longleftrightarrow>
     (\<forall>cls \<in> set classes. \<not> can_launch cls spec pc)"
  by (induction classes) simp_all

lemma launcher_loop_Some_iff:
  "launcher_loop can_launch spec pc classes = Some cls \<longleftrightarrow>
     (\<exists>before after. classes = before @ cls # after \<and> can_launch cls spec pc \<and>
        (\<forall>c \<in> set before. \<not> can_launch c spec pc))"
  (is "?L classes \<longleftrightarrow> ?R classes")
proof (induction classes)
  case Nil
  then show ?case by simp
next
  case (Cons a classes)
  show ?case
  proof (cases "can_launch a spec pc")
    case True
    have "?R (a # classes) \<longleftrightarrow> a = cls"
    proof
      assume "?R (a # classes)"
      then obtain before after where d: "a # classes = before @ cls # after"
        and n: "\<forall>c \<in> set before. \<not> can_launch c spec pc" by blast
      show "a = cls"
      proof (cases before)
        case Nil
        with d show ?thesis by simp
      next
        case (Cons b bs)
        with d have "a \<in> set before" by simp
        with n True show ?thesis by blast
      qed
    next
      assume "a = cls"
      with True have "a # classes = [] @ cls # classes \<and> can_launch cls spec pc \<and>
        (\<forall>c \<in> set []. \<not> can_launch c spec pc)" by simp
      then show "?R (a # classes)" by blast
    qed
    then show ?thesis using True by auto
  next
    case False
    have "?R (a # classes) \<longleftrightarrow> ?R classes"
    proof
      assume "?R (a # classes)"
      then obtain before after where d: "a # classes = before @ cls # after"
        and c: "can_launch cls spec pc"
        and n: "\<forall>c \<in> set before. \<not> can_launch c spec pc" by blast
      show "?R classes"
      proof (cases before)
        case Nil
        with d c False show ?thesis by simp
      next
        case (Cons b bs)
        with d n have "classes = bs @ cls # after \<and> (\<forall>c \<in> set bs. \<not> can_launch c spec pc)"
          by simp
        with c show ?thesis by blast
      qed
    next
      assume "?R classes"
      then obtain before after where d: "classes = before @ cls # after"
        and c: "can_launch cls spec pc"
        and n: "\<forall>c \<in> set before. \<not> can_launch c spec pc" by blast
      from d n False have "a # classes = (a # before) @ cls # after \<and>
        (\<forall>c \<in> set (a # before). \<not> can_launch c spec pc)" by simp
      with c show "?R (a # classes)" by blast
    qed
    then show ?thesis
      using Cons.IH False by simp
  qed
qed

lemma platform_config_loop_None_iff:
  "platform_config_loop can_launch spec classes cands = None \<longleftrightarrow>
     (\<forall>pc \<in> set cands. \<forall>cls \<in> set classes. \<not> can_launch cls spec pc)"
proof (induction cands)
  case Nil
  then show ?case by simp
next
  case (Cons a cands)
  then show ?case
    by (cases "launcher_loop can_launch spec a classes")
       (auto simp: launcher_loop_None_iff[symmetric])
qed

lemma platform_config_loop_Some_iff:
  "platform_config_loop can_launch spec classes cands = Some (cls, pc) \<longleftrightarrow>
     (\<exists>tried untried. cands = tried @ pc # untried \<and>
        launcher_loop can_launch spec pc classes = Some cls \<and>
        (\<forall>p \<in> set tried. \<forall>c \<in> set classes. \<not> can_launch c spec p))"
  (is "?L cands \<longleftrightarrow> ?R cands")
proof (induction cands)
  case Nil
  then show ?case by simp
next
  case (Cons a cands)
  show ?case
  proof (cases "launcher_loop can_launch spec a classes")
    case None
    then have no: "\<forall>c \<in> set classes. \<not> can_launch c spec a"
      by (simp add: launcher_loop_None_iff)
    have "?R (a # cands) \<longleftrightarrow> ?R cands"
    proof
      assume "?R (a # cands)"
      then obtain tried untried where d: "a # cands = tried @ pc # untried"
        and l: "launcher_loop can_launch spec pc classes = Some cls"
        and n: "\<forall>p \<in> set tried. \<forall>c \<in> set classes. \<not> can_launch c spec p" by blast
      show "?R cands"
      proof (cases tried)
        case Nil
        with d l None show ?thesis by simp
      next
        case (Cons b bs)
        with d n have "cands = bs @ pc # untried \<and>
          (\<forall>p \<in> set bs. \<forall>c \<in> set classes. \<not> can_launch c spec p)" by simp
        with l show ?thesis by blast
      qed
    next
      assume "?R cands"
      then obtain tried untried where d: "cands = tried @ pc # untried"
        and l: "launcher_loop can_launch spec pc classes = Some cls"
        and n: "\<forall>p \<in> set tried. \<forall>c \<in> set classes. \<not> can_launch c spec p" by blast
      from d n no have "a # cands = (a # tried) @ pc # untried \<and>
        (\<forall>p \<in> set (a # tried). \<forall>c \<in> set classes. \<not> can_launch c spec p)" by simp
      with l show "?R (a # cands)" by blast
    qed
    then show ?thesis using Cons.IH None by simp
  next
    case (Some c)
    then have ex: "c \<in> set classes \<and> can_launch c spec a"
      by (auto simp: launcher_loop_Some_iff)
    have "?R (a # cands) \<longleftrightarrow> (c = cls \<and> a = pc)"
    proof
      assume "?R (a # cands)"
      then obtain tried untried where d: "a # cands = tried @ pc # untried"
        and l: "launcher_loop can_launch spec pc classes = Some cls"
        and n: "\<forall>p \<in> set tried. \<forall>c \<in> set classes. \<not> can_launch c spec p" by blast
      show "c = cls \<and> a = pc"
      proof (cases tried)
        case Nil
        with d l Some show ?thesis by simp
      next
        case (Cons b bs)
        with d have "a \<in> set tried" by simp
        with n ex show ?thesis by blast
      qed
    next
      assume "c = cls \<and> a = pc"
      with Some have "a # cands = [] @ pc # cands \<and>
        launcher_loop can_launch spec pc classes = Some cls \<and>
        (\<forall>p \<in> set []. \<forall>c \<in> set classes. \<not> can_launch c spec p)" by simp
      then show "?R (a # cands)" by blast
    qed
    then show ?thesis using Some by auto
  qed
qed


text \<open>
  Claim C1. For a runner with launcher list \<open>classes\<close>: the candidate list is the configs
  registered for the component's id, in their order, followed by \<open>None\<close>;
  \<open>find_component_launch_info\<close> returns \<open>(cls, pc)\<close> exactly when \<open>pc\<close> is the first
  candidate under which some launcher can launch and \<open>cls\<close> is the first launcher of
  \<open>classes\<close> that can launch under \<open>pc\<close> (every candidate before \<open>pc\<close> admits no launcher,
  every launcher before \<open>cls\<close> cannot launch under \<open>pc\<close>). If the third launcher is the only
  one that can launch, it is the one returned; if the registered configs are \<open>[A, B]\<close>, no
  launcher can launch under either and one can under \<open>None\<close>, the config returned is
  \<open>None\<close>.
\<close>

theorem find_component_launch_info_first_match:
  assumes "supported_launcher_classes self = Some classes"
  shows
    "candidate_platform_configs self component =
       (case map_of (platform_configs self) (id_c component) of
          None \<Rightarrow> [] | Some registered \<Rightarrow> map Some registered) @ [None]
     \<and> (\<forall>cls pc.
          find_component_launch_info can_launch self component = Inr (cls, pc) \<longleftrightarrow>
          (\<exists>tried untried before after.
             candidate_platform_configs self component = tried @ pc # untried \<and>
             classes = before @ cls # after \<and>
             can_launch cls (executor_spec component) pc \<and>
             (\<forall>c \<in> set before. \<not> can_launch c (executor_spec component) pc) \<and>
             (\<forall>p \<in> set tried. \<forall>c \<in> set classes.
                \<not> can_launch c (executor_spec component) p)))
     \<and> (2 < length classes \<and>
          (\<exists>p \<in> set (candidate_platform_configs self component).
             can_launch (classes ! 2) (executor_spec component) p) \<and>
          (\<forall>c \<in> set classes. \<forall>p \<in> set (candidate_platform_configs self component).
             can_launch c (executor_spec component) p \<longrightarrow> c = classes ! 2)
          \<longrightarrow> (\<exists>pc. find_component_launch_info can_launch self component =
                       Inr (classes ! 2, pc)))
     \<and> (map_of (platform_configs self) (id_c component) = Some [A, B] \<and>
          (\<forall>c \<in> set classes. \<not> can_launch c (executor_spec component) (Some A) \<and>
                               \<not> can_launch c (executor_spec component) (Some B)) \<and>
          (\<exists>c \<in> set classes. can_launch c (executor_spec component) None)
          \<longrightarrow> (\<exists>cls. find_component_launch_info can_launch self component =
                        Inr (cls, None)))"
    (is "?cands \<and> ?first \<and> ?third \<and> ?fallback")
proof -
  let ?spec = "executor_spec component"
  let ?cs = "candidate_platform_configs self component"
  let ?loop = "platform_config_loop can_launch ?spec classes ?cs"
  have res: "find_component_launch_info can_launch self component = Inr r \<longleftrightarrow> ?loop = Some r"
    for r
    using assms
    by (simp add: find_component_launch_info_def no_launcher_message split: option.splits)
  have cands: ?cands
    by (simp add: candidate_platform_configs_def split: option.splits)
  have first: ?first
    unfolding res platform_config_loop_Some_iff launcher_loop_Some_iff by blast
  have found: "\<exists>cls pc. ?loop = Some (cls, pc) \<and> cls \<in> set classes \<and> pc \<in> set ?cs \<and>
                 can_launch cls ?spec pc"
    if "c \<in> set classes" "p \<in> set ?cs" "can_launch c ?spec p" for c p
  proof -
    from that have "?loop \<noteq> None"
      by (auto simp: platform_config_loop_None_iff)
    then obtain cls pc where s: "?loop = Some (cls, pc)" by auto
    then have "cls \<in> set classes \<and> pc \<in> set ?cs \<and> can_launch cls ?spec pc"
      unfolding platform_config_loop_Some_iff launcher_loop_Some_iff by auto
    with s show ?thesis by blast
  qed
  have third: ?third
  proof (intro impI, elim conjE bexE)
    fix p
    assume len: "2 < length classes" and p: "p \<in> set ?cs"
      and can: "can_launch (classes ! 2) ?spec p"
      and only: "\<forall>c \<in> set classes. \<forall>p \<in> set ?cs. can_launch c ?spec p \<longrightarrow> c = classes ! 2"
    from len have "classes ! 2 \<in> set classes" by simp
    from found[OF this p can] obtain cls pc where
      s: "?loop = Some (cls, pc)" and m: "cls \<in> set classes" "pc \<in> set ?cs" "can_launch cls ?spec pc"
      by blast
    from only m have "cls = classes ! 2" by blast
    with s show "\<exists>pc. find_component_launch_info can_launch self component = Inr (classes ! 2, pc)"
      unfolding res by blast
  qed
  have fallback: ?fallback
  proof (intro impI, elim conjE bexE)
    fix c
    assume reg: "map_of (platform_configs self) (id_c component) = Some [A, B]"
      and no: "\<forall>c \<in> set classes. \<not> can_launch c ?spec (Some A) \<and> \<not> can_launch c ?spec (Some B)"
      and c: "c \<in> set classes" "can_launch c ?spec None"
    from reg have cs: "?cs = [Some A, Some B, None]"
      by (simp add: candidate_platform_configs_def)
    then have "None \<in> set ?cs" by simp
    from found[OF c(1) this c(2)] obtain cls pc where
      s: "?loop = Some (cls, pc)" and m: "cls \<in> set classes" "pc \<in> set ?cs" "can_launch cls ?spec pc"
      by blast
    from m no cs have "pc = None" by auto
    with s show "\<exists>cls. find_component_launch_info can_launch self component = Inr (cls, None)"
      unfolding res by blast
  qed
  from cands first third fallback show ?thesis by blast
qed


text \<open>
  C1 at a concrete runner: three launchers of which only the third can launch, and only
  without a config; two configs registered for the component.
\<close>

theorem find_component_launch_info_first_match_witness:
  "find_component_launch_info (\<lambda>cls spec pc. cls = ''KubernetesLauncher'' \<and> pc = None)
     \<lparr>supported_launcher_classes =
        Some [''InProcessLauncher'', ''DockerLauncher'', ''KubernetesLauncher''],
      platform_configs = [(''trainer'', [10::nat, 20])]\<rparr>
     \<lparr>id_c = ''trainer'', component_id = ''trainer'', executor_spec = ''executor''\<rparr>
   = Inr (''KubernetesLauncher'', None)"
proof -
  let ?can = "\<lambda>(cls::string) (spec::string) (pc::nat option).
                cls = ''KubernetesLauncher'' \<and> pc = None"
  let ?classes = "[''InProcessLauncher'', ''DockerLauncher'', ''KubernetesLauncher'']"
  let ?self = "\<lparr>supported_launcher_classes = Some ?classes,
                platform_configs = [(''trainer'', [10::nat, 20])]\<rparr>"
  let ?comp = "\<lparr>id_c = ''trainer'', component_id = ''trainer'', executor_spec = ''executor''\<rparr>"
  have h: "supported_launcher_classes ?self = Some ?classes" by simp
  note t = find_component_launch_info_first_match [OF h, where component = ?comp and can_launch = ?can and A = 10 and B = 20]
  have cs: "candidate_platform_configs ?self ?comp = [Some 10, Some 20, None]"
    using t [THEN conjunct1] by simp
  have "\<exists>pc. find_component_launch_info ?can ?self ?comp = Inr (?classes ! 2, pc)"
    by (rule t [THEN conjunct2, THEN conjunct2, THEN conjunct1, THEN mp]) (simp add: cs)
  moreover have "\<exists>cls. find_component_launch_info ?can ?self ?comp = Inr (cls, None)"
    by (rule t [THEN conjunct2, THEN conjunct2, THEN conjunct2, THEN mp]) simp
  ultimately show ?thesis by auto
qed

text \<open>
  Claim C2. The candidate configs are the configs registered for the component's id
  followed by \<open>None\<close>. \<open>find_component_launch_info\<close> raises \<open>RuntimeError\<close> exactly
  when no launcher class of the runner can launch the component's executor spec under
  any of these candidates; it raises nothing else, and the message carries the
  component's \<open>component_id\<close>.
\<close>

theorem find_component_launch_info_raises_iff:
  assumes "supported_launcher_classes self = Some classes"
  shows
    "((\<exists>msg. find_component_launch_info can_launch self component = Inl (RuntimeError msg))
        \<longleftrightarrow>
      (\<forall>pc \<in> set ((case map_of (platform_configs self) (id_c component) of
                       None \<Rightarrow> [] | Some registered \<Rightarrow> map Some registered) @ [None]).
         \<forall>cls \<in> set classes. \<not> can_launch cls (executor_spec component) pc))
     \<and> (\<forall>err. find_component_launch_info can_launch self component = Inl err \<longrightarrow>
          err = RuntimeError
                  (''No launcher can launch component \"'' @ component_id component @ ''\".''))"
proof -
  have cands: "candidate_platform_configs self component =
      (case map_of (platform_configs self) (id_c component) of
         None \<Rightarrow> [] | Some registered \<Rightarrow> map Some registered) @ [None]"
    by (simp add: candidate_platform_configs_def split: option.splits)
  have raises: "find_component_launch_info can_launch self component = Inl err \<longleftrightarrow>
      platform_config_loop can_launch (executor_spec component) classes
        (candidate_platform_configs self component) = None \<and>
      err = RuntimeError
              (''No launcher can launch component \"'' @ component_id component @ ''\".'')"
    for err
    using assms
    by (auto simp: find_component_launch_info_def no_launcher_message split: option.splits)
  show ?thesis
    unfolding raises platform_config_loop_None_iff cands by blast
qed

text \<open>
  C2 at three runners for the component \<open>trainer\<close>. In the first no launcher can launch
  and the error names \<open>trainer\<close>. In the second the second launcher can launch under
  the second registered config and under nothing else; in the third a launcher can launch
  only without a config: neither raises.
\<close>

theorem find_component_launch_info_raises_iff_witness:
  "find_component_launch_info (\<lambda>(cls::string) (spec::string) (pc::nat option). False)
     \<lparr>supported_launcher_classes = Some [''InProcessLauncher'', ''DockerLauncher''],
      platform_configs = []\<rparr>
     \<lparr>id_c = ''trainer'', component_id = ''trainer'', executor_spec = ''executor''\<rparr>
   = Inl (RuntimeError ''No launcher can launch component \"trainer\".'')
   \<and> (\<exists>found.
        find_component_launch_info
          (\<lambda>(cls::string) (spec::string) (pc::nat option).
             cls = ''DockerLauncher'' \<and> pc = Some 20)
          \<lparr>supported_launcher_classes = Some [''InProcessLauncher'', ''DockerLauncher''],
           platform_configs = [(''trainer'', [10, 20])]\<rparr>
          \<lparr>id_c = ''trainer'', component_id = ''trainer'', executor_spec = ''executor''\<rparr>
        = Inr found)
   \<and> (\<exists>found.
        find_component_launch_info
          (\<lambda>(cls::string) (spec::string) (pc::nat option).
             cls = ''InProcessLauncher'' \<and> pc = None)
          \<lparr>supported_launcher_classes = Some [''InProcessLauncher'', ''DockerLauncher''],
           platform_configs = []\<rparr>
          \<lparr>id_c = ''trainer'', component_id = ''trainer'', executor_spec = ''executor''\<rparr>
        = Inr found)"
proof -
  let ?classes = "[''InProcessLauncher'', ''DockerLauncher'']"
  let ?comp = "\<lparr>id_c = ''trainer'', component_id = ''trainer'', executor_spec = ''executor''\<rparr>"
  let ?self0 = "\<lparr>supported_launcher_classes = Some ?classes,
                 platform_configs = ([] :: (string \<times> nat list) list)\<rparr>"
  let ?self1 = "\<lparr>supported_launcher_classes = Some ?classes,
                 platform_configs = [(''trainer'', [10::nat, 20])]\<rparr>"
  let ?never = "\<lambda>(cls::string) (spec::string) (pc::nat option). False"
  let ?docker = "\<lambda>(cls::string) (spec::string) (pc::nat option).
                   cls = ''DockerLauncher'' \<and> pc = Some 20"
  let ?plain = "\<lambda>(cls::string) (spec::string) (pc::nat option).
                  cls = ''InProcessLauncher'' \<and> pc = None"
  have h0: "supported_launcher_classes ?self0 = Some ?classes" by simp
  have h1: "supported_launcher_classes ?self1 = Some ?classes" by simp
  note t0 = find_component_launch_info_raises_iff
              [OF h0, where component = ?comp and can_launch = ?never]
  note t1 = find_component_launch_info_raises_iff
              [OF h1, where component = ?comp and can_launch = ?docker]
  note t2 = find_component_launch_info_raises_iff
              [OF h0, where component = ?comp and can_launch = ?plain]
  have "\<exists>msg. find_component_launch_info ?never ?self0 ?comp = Inl (RuntimeError msg)"
    using t0 [THEN conjunct1] by simp
  then obtain msg where m: "find_component_launch_info ?never ?self0 ?comp = Inl (RuntimeError msg)"
    by blast
  with t0 [THEN conjunct2] have
    "RuntimeError msg = RuntimeError ''No launcher can launch component \"trainer\".''"
    by simp
  with m have a: "find_component_launch_info ?never ?self0 ?comp =
                    Inl (RuntimeError ''No launcher can launch component \"trainer\".'')"
    by simp
  have n1: "\<not> (\<exists>msg. find_component_launch_info ?docker ?self1 ?comp = Inl (RuntimeError msg))"
    using t1 [THEN conjunct1] by simp
  have b: "\<exists>found. find_component_launch_info ?docker ?self1 ?comp = Inr found"
  proof (cases "find_component_launch_info ?docker ?self1 ?comp")
    case (Inl err)
    with t1 [THEN conjunct2] n1 show ?thesis by blast
  next
    case (Inr found)
    then show ?thesis by blast
  qed
  have n2: "\<not> (\<exists>msg. find_component_launch_info ?plain ?self0 ?comp = Inl (RuntimeError msg))"
    using t2 [THEN conjunct1] by simp
  have c: "\<exists>found. find_component_launch_info ?plain ?self0 ?comp = Inr found"
  proof (cases "find_component_launch_info ?plain ?self0 ?comp")
    case (Inl err)
    with t2 [THEN conjunct2] n2 show ?thesis by blast
  next
    case (Inr found)
    then show ?thesis by blast
  qed
  from a b c show ?thesis by (intro conjI)
qed

text \<open>
  Claim C3. Whatever the platform configs, constructing a runner whose
  \<open>SUPPORTED_LAUNCHER_CLASSES\<close> is \<open>None\<close> or empty fails with \<open>ValueError\<close>, and
  constructing one whose list has an entry that is not a subclass of
  \<open>BaseComponentLauncher\<close> fails with \<open>TypeError\<close>.
\<close>

theorem TfxRunner_init_rejects_launcher_classes:
  "(L = None \<or> L = Some [] \<longrightarrow>
      TfxRunner_init issubclass_launcher type_of L M =
        Inl (ValueError ''component_launcher_classes must not be None or empty.''))
   \<and> (\<forall>classes. L = Some classes \<and> (\<exists>cls \<in> set classes. \<not> issubclass_launcher cls) \<longrightarrow>
        TfxRunner_init issubclass_launcher type_of L M =
          Inl (TypeError (''Each item in supported_launcher_classes must be type of '' @
                          ''base_component_launcher.BaseComponentLauncher.'')))"
  by (auto simp: TfxRunner_init_def validate_supported_launcher_classes_def list_ex_iff)

text \<open>C3 at an empty list, and at a list whose second entry is not a launcher class.\<close>

theorem TfxRunner_init_rejects_launcher_classes_witness:
  "TfxRunner_init (\<lambda>cls::nat. cls = 1) (\<lambda>cfg::nat. cfg) (Some [])
      (Some [(''trainer'', [10])]) =
     Inl (ValueError ''component_launcher_classes must not be None or empty.'')
   \<and> TfxRunner_init (\<lambda>cls::nat. cls = 1) (\<lambda>cfg::nat. cfg) (Some [1, 2])
      (Some [(''trainer'', [10])]) =
     Inl (TypeError (''Each item in supported_launcher_classes must be type of '' @
                     ''base_component_launcher.BaseComponentLauncher.''))"
  using TfxRunner_init_rejects_launcher_classes [of "Some []" "\<lambda>cls::nat. cls = 1" "\<lambda>cfg::nat. cfg" "Some [(''trainer'', [10])]"]
    TfxRunner_init_rejects_launcher_classes [of "Some [1, 2]" "\<lambda>cls::nat. cls = 1" "\<lambda>cfg::nat. cfg" "Some [(''trainer'', [10])]"]
  by simp

lemma card_types_less_iff:
  "card (set (map f xs)) < length xs \<longleftrightarrow> \<not> distinct (map f xs)"
proof
  assume "card (set (map f xs)) < length xs"
  then show "\<not> distinct (map f xs)"
    using distinct_card [of "map f xs"] by auto
next
  assume "\<not> distinct (map f xs)"
  then have "card (set (map f xs)) \<noteq> length (map f xs)"
    using card_distinct by blast
  moreover have "card (set (map f xs)) \<le> length (map f xs)"
    by (rule card_length)
  ultimately show "card (set (map f xs)) < length xs" by simp
qed

lemma not_distinct_map_iff:
  "\<not> distinct (map f xs) \<longleftrightarrow>
     (\<exists>i j. i < j \<and> j < length xs \<and> f (xs ! i) = f (xs ! j))"
proof
  assume "\<not> distinct (map f xs)"
  then obtain i j where "i < length xs" "j < length xs" "i \<noteq> j" "f (xs ! i) = f (xs ! j)"
    by (auto simp: distinct_conv_nth)
  then show "\<exists>i j. i < j \<and> j < length xs \<and> f (xs ! i) = f (xs ! j)"
    by (cases "i < j") (metis, metis linorder_neqE_nat)
next
  assume "\<exists>i j. i < j \<and> j < length xs \<and> f (xs ! i) = f (xs ! j)"
  then obtain i j where "i < j" "j < length xs" "f (xs ! i) = f (xs ! j)" by blast
  then have "i < length (map f xs)" "j < length (map f xs)" "i \<noteq> j"
    "map f xs ! i = map f xs ! j" by simp_all
  then show "\<not> distinct (map f xs)"
    unfolding distinct_conv_nth by blast
qed

lemma validate_items_ok_iff:
  "validate_platform_configs_items type_of d = Inr () \<longleftrightarrow>
     (\<forall>(cid, configs) \<in> set d. cid \<noteq> [] \<and> distinct (map type_of configs))"
proof (induction d)
  case Nil
  then show ?case by simp
next
  case (Cons item d)
  obtain cid configs where item: "item = (cid, configs)" by (cases item)
  show ?case
    unfolding item using Cons.IH
    by (simp add: Let_def multiple_configs_message card_types_less_iff
          del: set_map)
qed

lemma validate_items_error:
  "validate_platform_configs_items type_of d = Inl e \<Longrightarrow> \<exists>msg. e = ValueError msg"
proof (induction d)
  case Nil
  then show ?case by simp
next
  case (Cons item d)
  obtain cid configs where item: "item = (cid, configs)" by (cases item)
  from Cons show ?case
    unfolding item
    by (auto simp: Let_def multiple_configs_message split: if_splits simp del: set_map py_format.simps)
qed


text \<open>
  Claim C4. For a platform-config dictionary \<open>d\<close> handed to the constructor of a runner
  class whose launcher list has no entry that is not a launcher class: construction fails
  with \<open>ValueError\<close> when some key of \<open>d\<close> is the empty string, and fails with
  \<open>ValueError\<close> when some component has two configs of the same type. Whatever the
  launcher list, such a \<open>d\<close> makes construction fail. Otherwise the platform-config
  validation passes, and with a valid launcher list construction returns the runner.
  (The launcher list is checked before the platform configs, so a list with a wrong entry
  fails with its own \<open>TypeError\<close> first.)
\<close>

theorem TfxRunner_init_validates_platform_configs:
  "((\<forall>classes. L = Some classes \<longrightarrow> (\<forall>cls \<in> set classes. issubclass_launcher cls)) \<longrightarrow>
      ((\<exists>cid configs. (cid, configs) \<in> set d \<and> cid = []) \<longrightarrow>
         (\<exists>msg. TfxRunner_init issubclass_launcher type_of L (Some d) = Inl (ValueError msg)))
      \<and> ((\<exists>cid configs i j. (cid, configs) \<in> set d \<and> i < j \<and> j < length configs \<and>
             type_of (configs ! i) = type_of (configs ! j)) \<longrightarrow>
         (\<exists>msg. TfxRunner_init issubclass_launcher type_of L (Some d) = Inl (ValueError msg))))
   \<and> ((\<exists>cid configs. (cid, configs) \<in> set d \<and>
          (cid = [] \<or> (\<exists>i j. i < j \<and> j < length configs \<and>
                               type_of (configs ! i) = type_of (configs ! j)))) \<longrightarrow>
        (\<exists>e. TfxRunner_init issubclass_launcher type_of L (Some d) = Inl e))
   \<and> (\<not> (\<exists>cid configs. (cid, configs) \<in> set d \<and>
            (cid = [] \<or> (\<exists>i j. i < j \<and> j < length configs \<and>
                                 type_of (configs ! i) = type_of (configs ! j)))) \<longrightarrow>
        validate_platform_configs type_of
          \<lparr>supported_launcher_classes = L, platform_configs = d\<rparr> = Inr ()
        \<and> (\<forall>classes. L = Some classes \<and> classes \<noteq> [] \<and>
              (\<forall>cls \<in> set classes. issubclass_launcher cls) \<longrightarrow>
              TfxRunner_init issubclass_launcher type_of L (Some d) =
                Inr \<lparr>supported_launcher_classes = L, platform_configs = d\<rparr>))"
proof -
  let ?self = "\<lparr>supported_launcher_classes = L, platform_configs = d\<rparr>"
  let ?bad = "\<exists>cid configs. (cid, configs) \<in> set d \<and>
          (cid = [] \<or> (\<exists>i j. i < j \<and> j < length configs \<and>
                               type_of (configs ! i) = type_of (configs ! j)))"
  have ok: "validate_platform_configs type_of ?self = Inr () \<longleftrightarrow> \<not> ?bad"
    unfolding validate_platform_configs_def
    by (simp add: validate_items_ok_iff not_distinct_map_iff [symmetric]) blast
  have bad: "\<exists>msg. validate_platform_configs type_of ?self = Inl (ValueError msg)" if ?bad
  proof -
    from that ok have "validate_platform_configs type_of ?self \<noteq> Inr ()" by blast
    then obtain e where e: "validate_platform_configs type_of ?self = Inl e"
      by (cases "validate_platform_configs type_of ?self") auto
    then have "\<exists>msg. e = ValueError msg"
      unfolding validate_platform_configs_def by (auto dest: validate_items_error)
    with e show ?thesis by blast
  qed
  have launchers: "(\<exists>msg. validate_supported_launcher_classes issubclass_launcher ?self =
                      Inl (ValueError msg))
                   \<or> validate_supported_launcher_classes issubclass_launcher ?self = Inr ()"
    if "\<forall>classes. L = Some classes \<longrightarrow> (\<forall>cls \<in> set classes. issubclass_launcher cls)"
    using that
    by (auto simp: validate_supported_launcher_classes_def list_ex_iff split: option.splits)
  have init: "TfxRunner_init issubclass_launcher type_of L (Some d) =
      (case validate_supported_launcher_classes issubclass_launcher ?self of
         Inl e \<Rightarrow> Inl e
       | Inr u \<Rightarrow> (case validate_platform_configs type_of ?self of
                    Inl e \<Rightarrow> Inl e | Inr u \<Rightarrow> Inr ?self))"
    by (simp add: TfxRunner_init_def Let_def)
  have value_error: "\<exists>msg. TfxRunner_init issubclass_launcher type_of L (Some d) =
                         Inl (ValueError msg)"
    if "\<forall>classes. L = Some classes \<longrightarrow> (\<forall>cls \<in> set classes. issubclass_launcher cls)" ?bad
    using launchers [OF that(1)] bad [OF that(2)] unfolding init by auto
  have fails: "\<exists>e. TfxRunner_init issubclass_launcher type_of L (Some d) = Inl e" if ?bad
    using bad [OF that] unfolding init
    by (cases "validate_supported_launcher_classes issubclass_launcher ?self") auto
  have passes: "TfxRunner_init issubclass_launcher type_of L (Some d) = Inr ?self"
    if "\<not> ?bad" "L = Some classes" "classes \<noteq> []" "\<forall>cls \<in> set classes. issubclass_launcher cls"
    for classes
  proof -
    have "validate_supported_launcher_classes issubclass_launcher ?self = Inr ()"
      using that(2-4) by (simp add: validate_supported_launcher_classes_def list_ex_iff)
    moreover have "validate_platform_configs type_of ?self = Inr ()"
      using ok that(1) by blast
    ultimately show ?thesis unfolding init by simp
  qed
  show ?thesis
    apply (intro conjI impI allI)
    subgoal using value_error by blast
    subgoal using value_error by blast
    subgoal using fails by blast
    subgoal using ok by blast
    subgoal using passes by blast
    done
qed

text \<open>
  C4 at three dictionaries: one with an empty key, one with two configs of one type
  (the type of a config being its last digit), one that is well formed.
\<close>

theorem TfxRunner_init_validates_platform_configs_witness:
  "TfxRunner_init (\<lambda>cls::string. True) (\<lambda>cfg::nat. cfg) (Some [''InProcessLauncher''])
      (Some [(''trainer'', [10, 20]), ([], [10])]) =
     Inl (ValueError ''component id cannot be empty in platform_configs.'')
   \<and> (\<exists>msg. TfxRunner_init (\<lambda>cls::string. True) (\<lambda>cfg::nat. cfg mod 10)
               (Some [''InProcessLauncher'']) (Some [(''trainer'', [10, 11, 20])]) =
             Inl (ValueError msg))
   \<and> TfxRunner_init (\<lambda>cls::string. True) (\<lambda>cfg::nat. cfg mod 10)
        (Some [''InProcessLauncher'']) (Some [(''trainer'', [10, 11])]) =
       Inr \<lparr>supported_launcher_classes = Some [''InProcessLauncher''],
            platform_configs = [(''trainer'', [10, 11])]\<rparr>"
proof -
  let ?L = "Some [''InProcessLauncher'']"
  let ?sub = "\<lambda>cls::string. True"
  note t1 = TfxRunner_init_validates_platform_configs
      [where L = ?L and issubclass_launcher = ?sub and type_of = "\<lambda>cfg::nat. cfg"
         and d = "[(''trainer'', [10, 20]), ([], [10])]"]
  note t2 = TfxRunner_init_validates_platform_configs
      [where L = ?L and issubclass_launcher = ?sub and type_of = "\<lambda>cfg::nat. cfg mod 10"
         and d = "[(''trainer'', [10, 11, 20])]"]
  note t3 = TfxRunner_init_validates_platform_configs
      [where L = ?L and issubclass_launcher = ?sub and type_of = "\<lambda>cfg::nat. cfg mod 10"
         and d = "[(''trainer'', [10, 11])]"]
  have "\<exists>msg. TfxRunner_init ?sub (\<lambda>cfg::nat. cfg) ?L
               (Some [(''trainer'', [10, 20]), ([], [10])]) = Inl (ValueError msg)"
    by (rule t1 [THEN conjunct1, THEN mp, THEN conjunct1, THEN mp]) auto
  then have a: "TfxRunner_init ?sub (\<lambda>cfg::nat. cfg) ?L
               (Some [(''trainer'', [10, 20]), ([], [10])]) =
      Inl (ValueError ''component id cannot be empty in platform_configs.'')"
    by (simp add: TfxRunner_init_def validate_supported_launcher_classes_def
          validate_platform_configs_def)
  have dup: "\<exists>cid configs i j. (cid, configs) \<in> set [(''trainer'', [10::nat, 11, 20])] \<and>
      i < j \<and> j < length configs \<and> configs ! i mod 10 = configs ! j mod 10"
    by (intro exI [of _ "''trainer''"] exI [of _ "[10, 11, 20]"] exI [of _ 0] exI [of _ 2]) simp
  have b: "\<exists>msg. TfxRunner_init ?sub (\<lambda>cfg::nat. cfg mod 10) ?L
               (Some [(''trainer'', [10, 11, 20])]) = Inl (ValueError msg)"
    by (rule t2 [THEN conjunct1, THEN mp, THEN conjunct2, THEN mp]) (simp, rule dup)
  have nodup: "\<not> (\<exists>cid configs. (cid, configs) \<in> set [(''trainer'', [10::nat, 11])] \<and>
          (cid = [] \<or> (\<exists>i j. i < j \<and> j < length configs \<and>
                               configs ! i mod 10 = configs ! j mod 10)))"
    by (auto simp: less_Suc_eq numeral_2_eq_2)
  have c: "TfxRunner_init ?sub (\<lambda>cfg::nat. cfg mod 10) ?L (Some [(''trainer'', [10, 11])]) =
       Inr \<lparr>supported_launcher_classes = ?L, platform_configs = [(''trainer'', [10, 11])]\<rparr>"
    using t3 [THEN conjunct2, THEN conjunct2, THEN mp, OF nodup, THEN conjunct2] by simp
  from a b c show ?thesis by blast
qed

section \<open>Properties of the build-spec helper\<close>

text \<open>
  The message that the target image is not used has two conversions and gets one
  argument, so formatting it raises; with it, loading an existing file with a target
  image raises whatever the file holds.
\<close>

lemma target_image_message_raises:
  "py_format (''Target image %s is not used. If the build spec is'' @
              ''provicded, update the target image in the build spec'' @
              ''file %s.'') [t] =
     Inl (TypeError ''not enough arguments for format string'')"
  by simp

lemma read_existing_with_target_image:
  assumes "files w (filename self) = Some text" and "target_image self = Some t"
  shows "read_existing_build_spec safe_load self w =
           (Some (TypeError ''not enough arguments for format string''), self,
            click_echo (''Reading build spec from '' @ filename self) w)"
  using assms
  by (simp add: read_existing_build_spec_def bind_error_def Let_def)

lemma read_existing_plain:
  assumes "files w (filename self) = Some text" and "target_image self = None"
    and "safe_load text = Inr doc"
    and "py_getitem_str doc ''build'' = Inr build"
    and "py_getitem_str build ''artifacts'' = Inr (YList arts)"
  shows "read_existing_build_spec safe_load self w =
           (if length arts \<noteq> 1 then
              (Some (RuntimeError (''The build spec contains multiple artifacts however'' @
                                   ''only one is supported.'')),
               self\<lparr>buildspec := Some doc\<rparr>,
               click_echo (''Reading build spec from '' @ filename self) w)
            else
              (case py_getitem_str (arts ! 0) ''workspace'' of
                 Inl e \<Rightarrow> (Some e, self\<lparr>buildspec := Some doc\<rparr>,
                           click_echo (''Reading build spec from '' @ filename self) w)
               | Inr workspace \<Rightarrow>
                   (None, self\<lparr>buildspec := Some doc, build_context := workspace\<rparr>,
                    click_echo (''Reading build spec from '' @ filename self) w)))"
  using assms
  by (auto simp: read_existing_build_spec_def bind_error_def Let_def split: sum.splits)


lemma BuildSpec_init_existing:
  assumes "files w (case filename_arg of None \<Rightarrow> BUILD_SPEC_FILENAME cs | Some f \<Rightarrow> f) = Some text"
  shows "BuildSpec_init cs safe_load dump filename_arg ti bc_arg df_arg w =
           read_existing_build_spec safe_load
             \<lparr>filename = (case filename_arg of None \<Rightarrow> BUILD_SPEC_FILENAME cs | Some f \<Rightarrow> f),
              build_context =
                YStr (case bc_arg of None \<Rightarrow> BUILD_CONTEXT cs | Some c \<Rightarrow> c),
              target_image = ti, buildspec = None\<rparr> w"
  using assms by (simp add: BuildSpec_init_def Let_def)

lemma BuildSpec_init_missing:
  assumes "files w (case filename_arg of None \<Rightarrow> BUILD_SPEC_FILENAME cs | Some f \<Rightarrow> f) = None"
  shows "BuildSpec_init cs safe_load dump filename_arg ti bc_arg df_arg w =
           (let self = \<lparr>filename =
                          (case filename_arg of None \<Rightarrow> BUILD_SPEC_FILENAME cs | Some f \<Rightarrow> f),
                        build_context =
                          YStr (case bc_arg of None \<Rightarrow> BUILD_CONTEXT cs | Some c \<Rightarrow> c),
                        target_image = ti, buildspec = None\<rparr>
            in if ti = None then
                 (Some (ValueError (''BuildSpec: target_image is not given and there is no '' @
                                    ''existing build spec file.'')), self, w)
               else generate_default cs dump self
                      (case df_arg of None \<Rightarrow> DOCKERFILE_NAME cs | Some d \<Rightarrow> d) w)"
  using assms by (simp add: BuildSpec_init_def Let_def)

lemma read_existing_frame:
  assumes "read_existing_build_spec safe_load self w = (raised, self', w')"
  shows "target_image self' = target_image self \<and> filename self' = filename self \<and>
         files w' = files w"
  using assms
  by (auto simp: read_existing_build_spec_def bind_error_def Let_def click_echo_def
        click_echo_to_def
        split: option.splits sum.splits if_splits simp del: py_format.simps)

lemma read_existing_returns:
  assumes "read_existing_build_spec safe_load self w = (None, self', w')"
  shows "\<exists>text doc. files w (filename self) = Some text \<and> safe_load text = Inr doc \<and>
           buildspec self' = Some doc \<and>
           bind_error (bind_error (py_getitem_str doc ''build'')
                         (\<lambda>build. py_getitem_str build ''artifacts'')) py_len = Inr 1 \<and>
           bind_error
             (bind_error
                (bind_error (py_getitem_str doc ''build'')
                   (\<lambda>build. py_getitem_str build ''artifacts''))
                (\<lambda>a. py_getitem_int a 0))
             (\<lambda>artifact. py_getitem_str artifact ''workspace'') = Inr (build_context self')"
  using assms
  by (auto simp: read_existing_build_spec_def Let_def
        split: option.splits sum.splits if_splits simp del: py_format.simps)

lemma read_existing_raises:
  assumes "read_existing_build_spec safe_load self w = (Some e, self', w')"
  shows "build_context self' = build_context self"
  using assms
  by (auto simp: read_existing_build_spec_def Let_def
        split: option.splits sum.splits if_splits simp del: py_format.simps)


lemma py_getitem_str_not_RuntimeError:
  "py_getitem_str v key \<noteq> Inl (RuntimeError msg)"
  by (cases v) (simp_all split: option.splits)

text \<open>
  Loading with no target image: on a file whose document has a list under
  \<open>build.artifacts\<close>, the constructor raises \<open>RuntimeError\<close> exactly when the list
  does not have one entry, and with one entry that has a \<open>workspace\<close> it returns with
  that workspace as build context.
\<close>

lemma load_plain_checks_one_artifact:
  assumes "files w fn = Some text" and "safe_load text = Inr doc"
    and "py_getitem_str doc ''build'' = Inr build"
    and "py_getitem_str build ''artifacts'' = Inr (YList arts)"
  shows "(\<exists>msg. fst (BuildSpec_init cs safe_load dump (Some fn) None bc_arg df_arg w) =
                  Some (RuntimeError msg)) \<longleftrightarrow> length arts \<noteq> 1"
  using assms
  by (auto simp: BuildSpec_init_existing read_existing_plain py_getitem_str_not_RuntimeError
        split: sum.splits simp del: py_format.simps)

lemma load_plain_one_artifact:
  assumes "files w fn = Some content" and "safe_load content = Inr doc"
    and "py_getitem_str doc ''build'' = Inr build"
    and "py_getitem_str build ''artifacts'' = Inr (YList [artifact])"
    and "py_getitem_str artifact ''workspace'' = Inr workspace"
  shows "fst (BuildSpec_init cs safe_load dump (Some fn) None bc_arg df_arg w) = None \<and>
         build_context (fst (snd (BuildSpec_init cs safe_load dump (Some fn) None bc_arg df_arg w)))
           = workspace"
  using assms
  by (simp add: BuildSpec_init_existing read_existing_plain del: py_format.simps)

text \<open>
  Generating (at a path that can be opened for writing) and then loading again with no
  target image gives back the build context, provided \<open>safe_load\<close> reads the generated
  document back from its dump.
\<close>

lemma generate_then_reload_plain:
  assumes "files w fn = None" and "fn \<noteq> []" and "writable w fn"
    and "BuildSpec_init cs safe_load dump (Some fn) (Some target) (Some ctx) df_arg w =
           (raised, self, w')"
    and "\<forall>doc. buildspec self = Some doc \<longrightarrow> safe_load (dump doc) = Inr doc"
  shows "raised = None \<and>
         fst (BuildSpec_init cs safe_load dump (Some fn) None bc_arg' df_arg' w') = None \<and>
         build_context (fst (snd (BuildSpec_init cs safe_load dump (Some fn) None bc_arg' df_arg'
                                    w'))) = YStr ctx"
proof -
  let ?self0 = "\<lparr>filename = fn, build_context = YStr ctx, target_image = Some target,
                  buildspec = None\<rparr>"
  let ?df = "case df_arg of None \<Rightarrow> DOCKERFILE_NAME cs | Some d \<Rightarrow> d"
  let ?doc = "default_buildspec cs ?self0 ?df"
  from assms(1-4) have r: "raised = None" and s: "self = ?self0\<lparr>buildspec := Some ?doc\<rparr>"
    and w': "w' = w\<lparr>files := (files w)(fn \<mapsto> dump ?doc)\<rparr>"
    by (auto simp: BuildSpec_init_missing generate_default_def open_for_writing_def Let_def)
  from s assms(5) have rt: "safe_load (dump ?doc) = Inr ?doc" by simp
  have f: "files w' fn = Some (dump ?doc)" using w' by simp
  have b: "py_getitem_str ?doc ''build'' =
             Inr (YDict [(''artifacts'', YList
                   [YDict [(''image'', YStr target), (''workspace'', YStr ctx),
                           (''docker'', YDict [(''dockerfile'', YStr ?df)])]])])"
    by (simp add: default_buildspec_def)
  have a: "py_getitem_str (YDict [(''artifacts'', YList
                   [YDict [(''image'', YStr target), (''workspace'', YStr ctx),
                           (''docker'', YDict [(''dockerfile'', YStr ?df)])]])]) ''artifacts'' =
             Inr (YList [YDict [(''image'', YStr target), (''workspace'', YStr ctx),
                           (''docker'', YDict [(''dockerfile'', YStr ?df)])]])"
    by simp
  have ws: "py_getitem_str (YDict [(''image'', YStr target), (''workspace'', YStr ctx),
                           (''docker'', YDict [(''dockerfile'', YStr ?df)])]) ''workspace'' =
              Inr (YStr ctx)"
    by simp
  from load_plain_one_artifact [where safe_load = safe_load and content = "dump ?doc", OF f rt b a ws] r
  show ?thesis by simp
qed

text \<open>
  Claim C5, at a failing input. The file \<open>build.yaml\<close> exists and holds two artifacts.
  Loaded with no target image, construction raises the \<open>RuntimeError\<close> of the claim.
  Loaded with a target image, construction raises \<open>TypeError\<close> instead: the message
  that the target image is not used has two \<open>%s\<close> and is formatted with one argument
  (the file name is passed to \<open>click.echo\<close>, not to \<open>%\<close>), and this happens before the
  file is parsed.
\<close>

theorem BuildSpec_init_two_artifacts_target_image:
  "fst (BuildSpec_init
          \<lparr>BUILD_SPEC_FILENAME = ''build.yaml'', BUILD_CONTEXT = ''.'',
           DOCKERFILE_NAME = ''Dockerfile'', SKAFFOLD_API_VERSION = ''skaffold/v1beta13''\<rparr>
          (\<lambda>text. Inr (YDict [(''build'', YDict [(''artifacts'', YList
             [YDict [(''image'', YStr ''a''), (''workspace'', YStr ''.'')],
              YDict [(''image'', YStr ''b''), (''workspace'', YStr ''.'')]])])]))
          (\<lambda>doc. ''dumped'')
          (Some ''build.yaml'') (Some ''gcr.io/my-project/my-image'') None None
          \<lparr>files = [''build.yaml'' \<mapsto> ''two artifacts''],
           writable = (\<lambda>path. path = ''build.yaml''), console = []\<rparr>)
     = Some (TypeError ''not enough arguments for format string'')
   \<and> fst (BuildSpec_init
          \<lparr>BUILD_SPEC_FILENAME = ''build.yaml'', BUILD_CONTEXT = ''.'',
           DOCKERFILE_NAME = ''Dockerfile'', SKAFFOLD_API_VERSION = ''skaffold/v1beta13''\<rparr>
          (\<lambda>text. Inr (YDict [(''build'', YDict [(''artifacts'', YList
             [YDict [(''image'', YStr ''a''), (''workspace'', YStr ''.'')],
              YDict [(''image'', YStr ''b''), (''workspace'', YStr ''.'')]])])]))
          (\<lambda>doc. ''dumped'')
          (Some ''build.yaml'') None None None
          \<lparr>files = [''build.yaml'' \<mapsto> ''two artifacts''],
           writable = (\<lambda>path. path = ''build.yaml''), console = []\<rparr>)
     = Some (RuntimeError
               ''The build spec contains multiple artifacts howeveronly one is supported.'')"
  by (simp add: BuildSpec_init_def read_existing_build_spec_def bind_error_def Let_def)

text \<open>
  Claim C7, at a failing input. The first construction finds no file and generates
  \<open>build.yaml\<close> for the target image and the build context \<open>ctx\<close>. A second
  construction from that file with the same arguments raises \<open>TypeError\<close> (the defect of
  C8) and yields no build context. A second construction that passes no target image
  returns with the build context \<open>ctx\<close>; \<open>generate_then_reload_plain\<close> has this for
  every target image and build context.
\<close>

theorem BuildSpec_init_generate_then_reload_target_image:
  "fst (BuildSpec_init
          \<lparr>BUILD_SPEC_FILENAME = ''build.yaml'', BUILD_CONTEXT = ''.'',
           DOCKERFILE_NAME = ''Dockerfile'', SKAFFOLD_API_VERSION = ''skaffold/v1beta13''\<rparr>
          (\<lambda>text. Inr (YDict [(''build'', YDict [(''artifacts'', YList
             [YDict [(''image'', YStr ''gcr.io/my-project/my-image''),
                     (''workspace'', YStr ''ctx'')]])])]))
          (\<lambda>doc. ''dumped'')
          (Some ''build.yaml'') (Some ''gcr.io/my-project/my-image'') (Some ''ctx'') None
          \<lparr>files = Map.empty, writable = (\<lambda>path. path = ''build.yaml''),
             console = []\<rparr>) = None
   \<and> fst (BuildSpec_init
          \<lparr>BUILD_SPEC_FILENAME = ''build.yaml'', BUILD_CONTEXT = ''.'',
           DOCKERFILE_NAME = ''Dockerfile'', SKAFFOLD_API_VERSION = ''skaffold/v1beta13''\<rparr>
          (\<lambda>text. Inr (YDict [(''build'', YDict [(''artifacts'', YList
             [YDict [(''image'', YStr ''gcr.io/my-project/my-image''),
                     (''workspace'', YStr ''ctx'')]])])]))
          (\<lambda>doc. ''dumped'')
          (Some ''build.yaml'') (Some ''gcr.io/my-project/my-image'') (Some ''ctx'') None
          (snd (snd (BuildSpec_init
             \<lparr>BUILD_SPEC_FILENAME = ''build.yaml'', BUILD_CONTEXT = ''.'',
              DOCKERFILE_NAME = ''Dockerfile'', SKAFFOLD_API_VERSION = ''skaffold/v1beta13''\<rparr>
             (\<lambda>text. Inr (YDict [(''build'', YDict [(''artifacts'', YList
                [YDict [(''image'', YStr ''gcr.io/my-project/my-image''),
                        (''workspace'', YStr ''ctx'')]])])]))
             (\<lambda>doc. ''dumped'')
             (Some ''build.yaml'') (Some ''gcr.io/my-project/my-image'') (Some ''ctx'') None
             \<lparr>files = Map.empty, writable = (\<lambda>path. path = ''build.yaml''),
             console = []\<rparr>))))
     = Some (TypeError ''not enough arguments for format string'')"
  by (simp add: BuildSpec_init_def read_existing_build_spec_def generate_default_def
        open_for_writing_def bind_error_def Let_def)

text \<open>
  Claim C8, at a failing input. The file \<open>build.yaml\<close> exists and holds one artifact
  with a workspace. Constructed with a target image, \<open>BuildSpec\<close> raises \<open>TypeError\<close>
  while it formats the message that the target image is not used; nothing but the line
  "Reading build spec from build.yaml" reaches the console. Constructed with no target
  image, it returns.
\<close>

theorem BuildSpec_init_existing_file_target_image_raises:
  "BuildSpec_init
          \<lparr>BUILD_SPEC_FILENAME = ''build.yaml'', BUILD_CONTEXT = ''.'',
           DOCKERFILE_NAME = ''Dockerfile'', SKAFFOLD_API_VERSION = ''skaffold/v1beta13''\<rparr>
          (\<lambda>text. Inr (YDict [(''build'', YDict [(''artifacts'', YList
             [YDict [(''image'', YStr ''a''), (''workspace'', YStr ''src'')]])])]))
          (\<lambda>doc. ''dumped'')
          (Some ''build.yaml'') (Some ''gcr.io/my-project/my-image'') None None
          \<lparr>files = [''build.yaml'' \<mapsto> ''one artifact''],
           writable = (\<lambda>path. path = ''build.yaml''), console = []\<rparr>
     = (Some (TypeError ''not enough arguments for format string''),
        \<lparr>filename = ''build.yaml'', build_context = YStr ''.'',
         target_image = Some ''gcr.io/my-project/my-image'', buildspec = None\<rparr>,
        \<lparr>files = [''build.yaml'' \<mapsto> ''one artifact''],
         writable = (\<lambda>path. path = ''build.yaml''),
         console = [''Reading build spec from build.yaml'']\<rparr>)
   \<and> fst (BuildSpec_init
          \<lparr>BUILD_SPEC_FILENAME = ''build.yaml'', BUILD_CONTEXT = ''.'',
           DOCKERFILE_NAME = ''Dockerfile'', SKAFFOLD_API_VERSION = ''skaffold/v1beta13''\<rparr>
          (\<lambda>text. Inr (YDict [(''build'', YDict [(''artifacts'', YList
             [YDict [(''image'', YStr ''a''), (''workspace'', YStr ''src'')]])])]))
          (\<lambda>doc. ''dumped'')
          (Some ''build.yaml'') None None None
          \<lparr>files = [''build.yaml'' \<mapsto> ''one artifact''],
           writable = (\<lambda>path. path = ''build.yaml''), console = []\<rparr>)
     = None"
  by (simp add: BuildSpec_init_def read_existing_build_spec_def bind_error_def Let_def
        click_echo_def)





text \<open>
  Claim C10. When the file exists, whatever the constructor does (return or raise), it
  leaves \<open>target_image\<close> equal to the argument, \<open>filename\<close> equal to the file name and
  the files as they were. When it returns, \<open>_buildspec\<close> is the document loaded from the
  file and \<open>build_context\<close> is the \<open>workspace\<close> of that document's first artifact; when
  it raises, \<open>build_context\<close> is still the constructor's argument.
\<close>

theorem BuildSpec_init_load_keeps_target_image:
  assumes "files w (case filename_arg of None \<Rightarrow> BUILD_SPEC_FILENAME cs | Some f \<Rightarrow> f) \<noteq> None"
    and "BuildSpec_init cs safe_load dump filename_arg ti bc_arg df_arg w = (raised, self, w')"
  shows
    "target_image self = ti
     \<and> filename self = (case filename_arg of None \<Rightarrow> BUILD_SPEC_FILENAME cs | Some f \<Rightarrow> f)
     \<and> files w' = files w
     \<and> (raised = None \<longrightarrow>
          (\<exists>content doc.
             files w (case filename_arg of None \<Rightarrow> BUILD_SPEC_FILENAME cs | Some f \<Rightarrow> f) =
               Some content \<and>
             safe_load content = Inr doc \<and> buildspec self = Some doc \<and>
             bind_error
               (bind_error
                  (bind_error (py_getitem_str doc ''build'')
                     (\<lambda>build. py_getitem_str build ''artifacts''))
                  (\<lambda>a. py_getitem_int a 0))
               (\<lambda>artifact. py_getitem_str artifact ''workspace'') = Inr (build_context self)))
     \<and> (raised \<noteq> None \<longrightarrow>
          build_context self =
            YStr (case bc_arg of None \<Rightarrow> BUILD_CONTEXT cs | Some c \<Rightarrow> c))"
proof -
  let ?fn = "case filename_arg of None \<Rightarrow> BUILD_SPEC_FILENAME cs | Some f \<Rightarrow> f"
  let ?self0 = "\<lparr>filename = ?fn,
                  build_context = YStr (case bc_arg of None \<Rightarrow> BUILD_CONTEXT cs | Some c \<Rightarrow> c),
                  target_image = ti, buildspec = None\<rparr>"
  from assms(1) obtain content where "files w ?fn = Some content" by auto
  with assms(2) have r: "read_existing_build_spec safe_load ?self0 w = (raised, self, w')"
    by (simp add: BuildSpec_init_existing)
  from read_existing_frame [OF r]
  have frame: "target_image self = ti \<and> filename self = ?fn \<and> files w' = files w" by simp
  have ret: "\<exists>content doc. files w ?fn = Some content \<and> safe_load content = Inr doc \<and>
             buildspec self = Some doc \<and>
             bind_error
               (bind_error
                  (bind_error (py_getitem_str doc ''build'')
                     (\<lambda>build. py_getitem_str build ''artifacts''))
                  (\<lambda>a. py_getitem_int a 0))
               (\<lambda>artifact. py_getitem_str artifact ''workspace'') = Inr (build_context self)"
    if "raised = None"
    using read_existing_returns [of safe_load ?self0 w self w'] r that by auto
  have rai: "build_context self =
               YStr (case bc_arg of None \<Rightarrow> BUILD_CONTEXT cs | Some c \<Rightarrow> c)"
    if "raised \<noteq> None"
  proof -
    from that obtain e where "raised = Some e" by auto
    with r read_existing_raises [of safe_load ?self0 w e self w'] show ?thesis by simp
  qed
  from frame ret rai show ?thesis by blast
qed

text \<open>
  C10 at a file with one artifact whose workspace is \<open>src\<close>, loaded with no target
  image: the constructor returns, \<open>target_image\<close> is \<open>None\<close> as the argument was
  (the file's image \<open>a\<close> is not taken), \<open>build_context\<close> is \<open>src\<close>.
\<close>

theorem BuildSpec_init_load_keeps_target_image_witness:
  "BuildSpec_init
          \<lparr>BUILD_SPEC_FILENAME = ''build.yaml'', BUILD_CONTEXT = ''.'',
           DOCKERFILE_NAME = ''Dockerfile'', SKAFFOLD_API_VERSION = ''skaffold/v1beta13''\<rparr>
          (\<lambda>content. Inr (YDict [(''build'', YDict [(''artifacts'', YList
             [YDict [(''image'', YStr ''a''), (''workspace'', YStr ''src'')]])])]))
          (\<lambda>doc. ''dumped'')
          (Some ''build.yaml'') None None None
          \<lparr>files = [''build.yaml'' \<mapsto> ''one artifact''],
           writable = (\<lambda>path. path = ''build.yaml''), console = []\<rparr>
     = (None,
        \<lparr>filename = ''build.yaml'', build_context = YStr ''src'', target_image = None,
         buildspec = Some (YDict [(''build'', YDict [(''artifacts'', YList
             [YDict [(''image'', YStr ''a''), (''workspace'', YStr ''src'')]])])])\<rparr>,
        \<lparr>files = [''build.yaml'' \<mapsto> ''one artifact''],
         writable = (\<lambda>path. path = ''build.yaml''),
         console = [''Reading build spec from build.yaml'']\<rparr>)"
proof -
  let ?cs = "\<lparr>BUILD_SPEC_FILENAME = ''build.yaml'', BUILD_CONTEXT = ''.'',
           DOCKERFILE_NAME = ''Dockerfile'', SKAFFOLD_API_VERSION = ''skaffold/v1beta13''\<rparr>"
  let ?doc = "YDict [(''build'', YDict [(''artifacts'', YList
             [YDict [(''image'', YStr ''a''), (''workspace'', YStr ''src'')]])])]"
  let ?w = "\<lparr>files = [''build.yaml'' \<mapsto> ''one artifact''],
           writable = (\<lambda>path. path = ''build.yaml''), console = []\<rparr>"
  let ?r = "BuildSpec_init ?cs (\<lambda>content. Inr ?doc) (\<lambda>doc. ''dumped'')
              (Some ''build.yaml'') None None None ?w"
  have h: "files ?w (case Some ''build.yaml'' of None \<Rightarrow> BUILD_SPEC_FILENAME ?cs | Some f \<Rightarrow> f)
             \<noteq> None" by simp
  have p: "?r = (fst ?r, fst (snd ?r), snd (snd ?r))" by simp
  note t = BuildSpec_init_load_keeps_target_image [OF h p]
  have out: "fst ?r = None"
    and con: "console (snd (snd ?r)) = [''Reading build spec from build.yaml'']"
    and wr: "writable (snd (snd ?r)) = (\<lambda>path. path = ''build.yaml'')"
    by (simp_all add: BuildSpec_init_def read_existing_build_spec_def bind_error_def Let_def
          click_echo_def)
  from t out have "target_image (fst (snd ?r)) = None" "filename (fst (snd ?r)) = ''build.yaml''"
    "files (snd (snd ?r)) = [''build.yaml'' \<mapsto> ''one artifact'']"
    "buildspec (fst (snd ?r)) = Some ?doc" "build_context (fst (snd ?r)) = YStr ''src''"
    by (auto simp: bind_error_def)
  with out con wr have f1: "fst ?r = None"
    and f2: "fst (snd ?r) = \<lparr>filename = ''build.yaml'', build_context = YStr ''src'',
       target_image = None, buildspec = Some ?doc\<rparr>"
    and f3: "snd (snd ?r) = \<lparr>files = [''build.yaml'' \<mapsto> ''one artifact''],
         writable = (\<lambda>path. path = ''build.yaml''),
         console = [''Reading build spec from build.yaml'']\<rparr>"
    by simp_all
  show ?thesis
  proof (rule prod_eqI)
    show "fst ?r = fst (None,
        \<lparr>filename = ''build.yaml'', build_context = YStr ''src'',
           target_image = None, buildspec = Some ?doc\<rparr>,
        \<lparr>files = [''build.yaml'' \<mapsto> ''one artifact''],
           writable = (\<lambda>path. path = ''build.yaml''),
           console = [''Reading build spec from build.yaml'']\<rparr>)"
      by (simp only: fst_conv f1)
    show "snd ?r = snd (None,
        \<lparr>filename = ''build.yaml'', build_context = YStr ''src'',
           target_image = None, buildspec = Some ?doc\<rparr>,
        \<lparr>files = [''build.yaml'' \<mapsto> ''one artifact''],
           writable = (\<lambda>path. path = ''build.yaml''),
           console = [''Reading build spec from build.yaml'']\<rparr>)"
      by (rule prod_eqI) (simp_all only: fst_conv snd_conv f2 f3)
  qed
qed

section \<open>Properties of the example component\<close>

text \<open>
  Claim C9. Constructed without an \<open>output_data\<close> channel, \<open>HelloComponent\<close> hands
  to its spec the channel that \<open>as_channel\<close> makes from exactly two \<open>Examples\<close>
  artifacts, with the splits \<open>train\<close> and \<open>eval\<close> in this order; constructed with a
  channel, it hands that channel on unchanged. The other two arguments go to the spec as
  they are.
\<close>

theorem HelloComponent_init_output_data:
  "HelloComponent_init as_channel Examples spec_init base_init input_data_arg None name_arg =
     bind_error
       (spec_init \<lparr>input_data = input_data_arg,
                   output_data = as_channel [Examples ''train'', Examples ''eval''],
                   name = name_arg\<rparr>)
       base_init
   \<and> HelloComponent_init as_channel Examples spec_init base_init input_data_arg (Some ch)
       name_arg =
     bind_error
       (spec_init \<lparr>input_data = input_data_arg, output_data = ch, name = name_arg\<rparr>)
       base_init"
  by (simp add: HelloComponent_init_def channel_truthy_def)

end
